theory Spec2Isabelle
  imports Complex_Main "HOL-Library.Multiset" "HOL-Library.List_Lexorder"
    "HOL-Library.Char_ord" "HOL-Library.Product_Lexorder"
begin

section \<open>The route cost dashboard of \<^verbatim>\<open>streamlit_app.py\<close>\<close>

text \<open>
  The program is the single function \<^verbatim>\<open>main\<close>: it reads a spreadsheet into a pandas
  table, derives four option lists, filters the table by four selections, computes four
  summary scalars, and groups, aggregates and sorts the filtered rows.

  A table is the list of its rows, in the order of the sheet. A cell is a value or is
  missing (a blank cell of the sheet, pandas' NaN): \<open>None\<close> is the missing cell. A value of
  one of the four columns that the program filters and groups by is a text or a number, as
  the sheet has it. Text is a list of bytes (the UTF-8 encoding, whose bytewise
  lexicographic order is Python's order on strings).

  Numbers are exact rationals. The program computes in 64-bit integers, which wrap around
  at \<open>2^63\<close>, where a column holds whole numbers only, and in 64-bit floats, which round,
  everywhere else and in every mean. Neither is part of this model: what is proved of a
  sum, a difference or a mean is proved in exact arithmetic.
\<close>

subsection \<open>Tables\<close>

datatype val = Text string | Number rat

type_synonym cell = "val option"
type_synonym num = "rat option"

record route_record =
  ORIGIN :: cell
  DESTINATION :: cell
  Fleet :: cell
  Month :: cell
  TRIP_RATE :: num
  DISPATCH :: num
  PROFIT :: num

text \<open>A row of the sheet as read: the two further columns are dropped at line 24. The
  types say that the sheet has the nine columns the program names; a sheet without one of
  them makes pandas raise a key error after line 21, which is not part of this model.\<close>

record sheet_row = route_record +
  COMMISSION :: num
  COST_LITRE :: num

definition drop_columns :: "sheet_row list \<Rightarrow> route_record list" where
  "drop_columns sheet = map route_record.truncate sheet"

subsection \<open>The pandas operations the program calls\<close>

text \<open>\<^verbatim>\<open>Series.unique()\<close>: the distinct values in order of first appearance; the missing
  value is one of the values.\<close>

fun unique_from :: "'a list \<Rightarrow> 'a list \<Rightarrow> 'a list" where
  "unique_from seen [] = []"
| "unique_from seen (x # xs) =
     (if x \<in> set seen then unique_from seen xs else x # unique_from (x # seen) xs)"

definition unique :: "'a list \<Rightarrow> 'a list" where
  "unique xs = unique_from [] xs"

text \<open>\<^verbatim>\<open>series == value\<close>, elementwise: a missing cell equals nothing, and nothing equals a
  missing value.\<close>

definition cell_eq :: "cell \<Rightarrow> cell \<Rightarrow> bool" where
  "cell_eq c v = (case (c, v) of (Some a, Some b) \<Rightarrow> a = b | _ \<Rightarrow> False)"

text \<open>The values present in a column.\<close>

definition notna :: "'a option list \<Rightarrow> 'a list" where
  "notna col = List.map_filter id col"

text \<open>\<^verbatim>\<open>Series.count()\<close>, \<^verbatim>\<open>Series.sum()\<close> and \<^verbatim>\<open>Series.mean()\<close> skip missing cells; the mean
  of no value at all is missing. The sum and the mean are the exact ones: the program's
  sum of a column of whole numbers wraps around at \<open>2^63\<close>, and its other sums and its
  means are rounded to 64-bit floats.\<close>

definition series_count :: "'a option list \<Rightarrow> nat" where
  "series_count col = length (notna col)"

definition series_sum :: "num list \<Rightarrow> rat" where
  "series_sum col = sum_list (notna col)"

definition series_mean :: "num list \<Rightarrow> num" where
  "series_mean col =
     (if notna col = [] then None
      else Some (sum_list (notna col) / of_nat (length (notna col))))"

text \<open>\<^verbatim>\<open>a + b\<close> and \<^verbatim>\<open>a - b\<close> on columns: missing if either side is.\<close>

definition num_add :: "num \<Rightarrow> num \<Rightarrow> num" where
  "num_add a b = (case (a, b) of (Some x, Some y) \<Rightarrow> Some (x + y) | _ \<Rightarrow> None)"

definition num_sub :: "num \<Rightarrow> num \<Rightarrow> num" where
  "num_sub a b = (case (a, b) of (Some x, Some y) \<Rightarrow> Some (x - y) | _ \<Rightarrow> None)"

text \<open>\<^verbatim>\<open>frame[['TRIP RATE', 'DISPATCH']].sum(axis=1)\<close>: the sum along a row skips missing
  cells, so it is never missing.\<close>

definition row_sum :: "route_record \<Rightarrow> num" where
  "row_sum r = Some (series_sum [TRIP_RATE r, DISPATCH r])"

text \<open>The order in which pandas sorts the values of a column: numbers by size, text
  lexicographically, and in a column that holds both, numbers before text. The key of a
  value says so in types that are ordered already.\<close>

fun sort_position :: "val \<Rightarrow> nat \<times> rat \<times> string" where
  "sort_position (Number x) = (0, x, [])"
| "sort_position (Text s) = (1, 0, s)"

subsection \<open>Filter options (lines 27 to 30)\<close>

definition origin_options :: "route_record list \<Rightarrow> cell list" where
  "origin_options data = [Some (Text ''All'')] @ unique (map ORIGIN data)"

definition destination_options :: "route_record list \<Rightarrow> cell list" where
  "destination_options data = [Some (Text ''All'')] @ unique (map DESTINATION data)"

definition fleet_options :: "route_record list \<Rightarrow> cell list" where
  "fleet_options data = [Some (Text ''All'')] @ unique (map Fleet data)"

definition month_options :: "route_record list \<Rightarrow> cell list" where
  "month_options data = [Some (Text ''All'')] @ unique (map Month data)"

subsection \<open>Filtering (lines 40 to 48)\<close>

text \<open>What the four select boxes return: one entry of each option list.\<close>

record selection =
  selected_origin :: cell
  selected_destination :: cell
  selected_fleet :: cell
  selected_month :: cell

definition filtered_data :: "route_record list \<Rightarrow> selection \<Rightarrow> route_record list" where
  "filtered_data data sel =
     (let fd0 = data;
          fd1 = (if selected_origin sel \<noteq> Some (Text ''All'')
                 then filter (\<lambda>r. cell_eq (ORIGIN r) (selected_origin sel)) fd0 else fd0);
          fd2 = (if selected_destination sel \<noteq> Some (Text ''All'')
                 then filter (\<lambda>r. cell_eq (DESTINATION r) (selected_destination sel)) fd1
                 else fd1);
          fd3 = (if selected_fleet sel \<noteq> Some (Text ''All'')
                 then filter (\<lambda>r. cell_eq (Fleet r) (selected_fleet sel)) fd2 else fd2);
          fd4 = (if selected_month sel \<noteq> Some (Text ''All'')
                 then filter (\<lambda>r. cell_eq (Month r) (selected_month sel)) fd3 else fd3)
      in fd4)"

text \<open>The four steps are alike. A field names one of them; the test of a field is the
  one that its step applies to a row.\<close>

datatype field = F_ORIGIN | F_DESTINATION | F_Fleet | F_Month

fun column :: "field \<Rightarrow> route_record \<Rightarrow> cell" where
  "column F_ORIGIN r = ORIGIN r"
| "column F_DESTINATION r = DESTINATION r"
| "column F_Fleet r = Fleet r"
| "column F_Month r = Month r"

fun selected :: "field \<Rightarrow> selection \<Rightarrow> cell" where
  "selected F_ORIGIN sel = selected_origin sel"
| "selected F_DESTINATION sel = selected_destination sel"
| "selected F_Fleet sel = selected_fleet sel"
| "selected F_Month sel = selected_month sel"

fun options :: "field \<Rightarrow> route_record list \<Rightarrow> cell list" where
  "options F_ORIGIN data = origin_options data"
| "options F_DESTINATION data = destination_options data"
| "options F_Fleet data = fleet_options data"
| "options F_Month data = month_options data"

definition field_test :: "field \<Rightarrow> selection \<Rightarrow> route_record \<Rightarrow> bool" where
  "field_test fld sel r =
     (selected fld sel = Some (Text ''All'') \<or> cell_eq (column fld r) (selected fld sel))"

definition row_selected :: "selection \<Rightarrow> route_record \<Rightarrow> bool" where
  "row_selected sel r =
     (field_test F_ORIGIN sel r \<and> field_test F_DESTINATION sel r \<and>
      field_test F_Fleet sel r \<and> field_test F_Month sel r)"

subsection \<open>Sidebar summary (lines 52 to 55)\<close>

definition total_trips :: "route_record list \<Rightarrow> nat" where
  "total_trips fd = series_count (map ORIGIN fd)"

definition total_revenue :: "route_record list \<Rightarrow> rat" where
  "total_revenue fd = series_sum (map TRIP_RATE fd)"

definition average_profit :: "route_record list \<Rightarrow> num" where
  "average_profit fd = series_mean (map PROFIT fd)"

definition average_cost :: "route_record list \<Rightarrow> num" where
  "average_cost fd = num_sub (series_mean (map row_sum fd)) (average_profit fd)"

subsection \<open>Grouped aggregation (lines 69 to 77)\<close>

definition TOTAL_COST :: "route_record \<Rightarrow> num" where
  "TOTAL_COST r = num_sub (num_add (TRIP_RATE r) (DISPATCH r)) (PROFIT r)"

text \<open>A row of the aggregate table. Its columns are named as in the source; the prefix
  \<open>g_\<close> keeps them apart from the columns of the input and from the sidebar's scalars.
  The month is a cell because line 81 can make it missing.\<close>

record summary_row =
  g_Month :: cell
  g_Fleet :: val
  number_of_trips :: nat
  g_total_revenue :: rat
  g_average_profit :: num
  g_average_cost :: num

text \<open>The key of a row in \<^verbatim>\<open>groupby(['Month', 'Fleet'])\<close>: a row with a missing key cell
  belongs to no group.\<close>

definition group_key :: "route_record \<Rightarrow> (val \<times> val) option" where
  "group_key r =
     (case (Month r, Fleet r) of (Some m, Some f) \<Rightarrow> Some (m, f) | _ \<Rightarrow> None)"

text \<open>The groups come out sorted by their keys.\<close>

definition group_keys :: "route_record list \<Rightarrow> (val \<times> val) list" where
  "group_keys fd =
     sort_key (\<lambda>k. (sort_position (fst k), sort_position (snd k)))
       (remdups (List.map_filter group_key fd))"

definition group_rows :: "route_record list \<Rightarrow> val \<times> val \<Rightarrow> route_record list" where
  "group_rows fd k = filter (\<lambda>r. group_key r = Some k) fd"

definition agg :: "val \<times> val \<Rightarrow> route_record list \<Rightarrow> summary_row" where
  "agg k grp =
     \<lparr>g_Month = Some (fst k), g_Fleet = snd k,
      number_of_trips = series_count (map ORIGIN grp),
      g_total_revenue = series_sum (map TRIP_RATE grp),
      g_average_profit = series_mean (map PROFIT grp),
      g_average_cost = series_mean (map TOTAL_COST grp)\<rparr>"

definition groupby_agg :: "route_record list \<Rightarrow> summary_row list" where
  "groupby_agg fd = map (\<lambda>k. agg k (group_rows fd k)) (group_keys fd)"

subsection \<open>Chronological sort (lines 80 to 82)\<close>

definition month_order :: "val list" where
  "month_order = [Text ''JULY'', Text ''AUGUST'', Text ''SEPTEMBER'', Text ''OCTOBER'']"

text \<open>\<^verbatim>\<open>pd.Categorical(column, categories=month_order, ordered=True)\<close>: a value that is not
  a category becomes missing.\<close>

definition Categorical :: "val list \<Rightarrow> cell \<Rightarrow> cell" where
  "Categorical categories c =
     (case c of None \<Rightarrow> None
      | Some m \<Rightarrow> if m \<in> set categories then Some m else None)"

text \<open>The code of a categorical value is its position among the categories; in an
  ascending sort a missing value counts as one more than every code.\<close>

fun position :: "val list \<Rightarrow> val \<Rightarrow> nat" where
  "position [] m = 0"
| "position (c # cs) m = (if c = m then 0 else Suc (position cs m))"

definition month_code :: "cell \<Rightarrow> nat" where
  "month_code c = (case c of None \<Rightarrow> length month_order | Some m \<Rightarrow> position month_order m)"

text \<open>\<^verbatim>\<open>sort_values(['Month', 'Fleet'])\<close> sorts on the pair of keys and keeps rows with
  equal keys in their order (the sort on several columns is stable).\<close>

definition sort_values :: "summary_row list \<Rightarrow> summary_row list" where
  "sort_values tbl = sort_key (\<lambda>g. (month_code (g_Month g), sort_position (g_Fleet g))) tbl"

text \<open>Line 81 replaces the Month column of the aggregate table by its categorical.\<close>

definition chronological :: "summary_row \<Rightarrow> summary_row" where
  "chronological g = g\<lparr>g_Month := Categorical month_order (g_Month g)\<rparr>"

definition summary_by_month_and_fleet :: "route_record list \<Rightarrow> summary_row list" where
  "summary_by_month_and_fleet fd = sort_values (map chronological (groupby_agg fd))"

subsection \<open>The page\<close>

text \<open>What one run of \<^verbatim>\<open>main\<close> puts on the page, in order. A chart is given by its title,
  the column on its y axis and the table it draws; the sidebar summary by its four
  scalars. Labels and number formats are presentation and are left out.\<close>

datatype element =
    Title string
  | Write string
  | FileUploader string
  | ErrorMessage string
  | SidebarHeader string
  | Selectbox string "cell list"
  | SidebarSummary nat rat num num
  | FilteredTable bool "route_record list"
  | SummaryTable bool "summary_row list"
  | BarChart bool string string "summary_row list"

definition sidebar_summary :: "route_record list \<Rightarrow> element list" where
  "sidebar_summary fd =
     (if fd \<noteq> []
      then [SidebarSummary (total_trips fd) (total_revenue fd) (average_profit fd)
              (average_cost fd)]
      else [])"

definition summary_section :: "route_record list \<Rightarrow> element list" where
  "summary_section fd =
     (if fd \<noteq> []
      then (let s = summary_by_month_and_fleet fd in
            [SummaryTable True s,
             BarChart True ''Number of Trips by Month and Fleet'' ''number_of_trips'' s,
             BarChart False ''Average Profit by Month and Fleet'' ''average_profit'' s,
             BarChart False ''Average Cost by Month and Fleet'' ''average_cost'' s,
             BarChart False ''Total Revenue by Month and Fleet'' ''total_revenue'' s])
      else [])"

text \<open>Lines 23 to 115, for a sheet that was read.\<close>

definition dashboard :: "sheet_row list \<Rightarrow> selection \<Rightarrow> element list" where
  "dashboard sheet sel =
     (let data = drop_columns sheet;
          fd = filtered_data data sel
      in [SidebarHeader ''Filters'',
          Selectbox ''Select Origin'' (origin_options data),
          Selectbox ''Select Destination'' (destination_options data),
          Selectbox ''Select Fleet'' (fleet_options data),
          Selectbox ''Select Month'' (month_options data)]
         @ sidebar_summary fd
         @ [FilteredTable False fd]
         @ summary_section fd)"

text \<open>\<^verbatim>\<open>pd.read_excel\<close> is the library's: it is a parameter, returning the sheet or the
  text of the exception it raised. The upload is absent until the user gives a file.\<close>

definition main ::
  "('b \<Rightarrow> string + sheet_row list) \<Rightarrow> 'b option \<Rightarrow> selection \<Rightarrow> element list" where
  "main read_excel uploaded_file sel =
     [Title ''VPC Route Cost Dashboard'',
      Write ''This dashboard allows users to search routes by origin, destination, fleet, and month.'',
      FileUploader ''Upload an Excel file'']
     @ (case uploaded_file of
          None \<Rightarrow> []
        | Some file \<Rightarrow>
            (case read_excel file of
               Inl e \<Rightarrow> [ErrorMessage (''Error reading the file: '' @ e)]
             | Inr sheet \<Rightarrow> dashboard sheet sel))"

section \<open>The specification's notions\<close>

text \<open>The definitions of this section follow the words of the specification and use
  none of the program's operations; the theorems below compare them with the program.\<close>

subsection \<open>Selections and option lists\<close>

text \<open>A field accepts a row when its selection is "All" or the row's value is the
  selected value.\<close>

definition field_accepts :: "field \<Rightarrow> selection \<Rightarrow> route_record \<Rightarrow> bool" where
  "field_accepts fld sel r =
     (selected fld sel = Some (Text ''All'') \<or> column fld r = selected fld sel)"

definition row_accepted :: "selection \<Rightarrow> route_record \<Rightarrow> bool" where
  "row_accepted sel r =
     (field_accepts F_ORIGIN sel r \<and> field_accepts F_DESTINATION sel r \<and>
      field_accepts F_Fleet sel r \<and> field_accepts F_Month sel r)"

text \<open>Some field has the blank entry selected, which its option list offers when its
  column has a blank cell.\<close>

definition blank_selected :: "selection \<Rightarrow> bool" where
  "blank_selected sel =
     (selected_origin sel = None \<or> selected_destination sel = None \<or>
      selected_fleet sel = None \<or> selected_month sel = None)"

definition all_All :: selection where
  "all_All =
     \<lparr>selected_origin = Some (Text ''All''), selected_destination = Some (Text ''All''),
      selected_fleet = Some (Text ''All''), selected_month = Some (Text ''All'')\<rparr>"

text \<open>The values of a column at the positions where they occur for the first time.\<close>

definition first_occurrences :: "'a list \<Rightarrow> 'a list" where
  "first_occurrences xs =
     map (\<lambda>i. xs ! i) (filter (\<lambda>i. xs ! i \<notin> set (take i xs)) [0..<length xs])"

subsection \<open>Reference summaries\<close>

text \<open>What a cell adds to a sum: a blank cell adds nothing.\<close>

definition amount :: "num \<Rightarrow> rat" where
  "amount c = (case c of None \<Rightarrow> 0 | Some x \<Rightarrow> x)"

definition trip_rate :: "route_record \<Rightarrow> rat" where
  "trip_rate r = the (TRIP_RATE r)"

definition dispatch :: "route_record \<Rightarrow> rat" where
  "dispatch r = the (DISPATCH r)"

definition profit :: "route_record \<Rightarrow> rat" where
  "profit r = the (PROFIT r)"

definition derived_cost :: "route_record \<Rightarrow> rat" where
  "derived_cost r = trip_rate r + dispatch r - profit r"

definition no_blank_numbers :: "route_record \<Rightarrow> bool" where
  "no_blank_numbers r = (TRIP_RATE r \<noteq> None \<and> DISPATCH r \<noteq> None \<and> PROFIT r \<noteq> None)"

definition mean_of :: "rat list \<Rightarrow> rat" where
  "mean_of xs = sum_list xs / of_nat (length xs)"

text \<open>The mean of no number is blank.\<close>

definition mean_if_any :: "rat list \<Rightarrow> num" where
  "mean_if_any xs = (if xs = [] then None else Some (mean_of xs))"





subsection \<open>Reference order of the aggregate table\<close>




section \<open>Example tables\<close>

definition trip ::
  "string \<Rightarrow> string \<Rightarrow> string \<Rightarrow> string \<Rightarrow> rat \<Rightarrow> rat \<Rightarrow> rat \<Rightarrow> route_record" where
  "trip orig dest fl mo rate disp prof =
     \<lparr>ORIGIN = Some (Text orig), DESTINATION = Some (Text dest), Fleet = Some (Text fl),
      Month = Some (Text mo), TRIP_RATE = Some rate, DISPATCH = Some disp,
      PROFIT = Some prof\<rparr>"

text \<open>Six trips over three months and two fleets.\<close>

definition six_trips :: "route_record list" where
  "six_trips =
     [trip ''LAGOS'' ''KANO'' ''A'' ''OCTOBER'' 100 20 30,
      trip ''LAGOS'' ''ABUJA'' ''B'' ''JULY'' 200 40 50,
      trip ''KANO'' ''LAGOS'' ''A'' ''JULY'' 300 60 80,
      trip ''LAGOS'' ''KANO'' ''A'' ''OCTOBER'' 140 20 50,
      trip ''ABUJA'' ''KANO'' ''B'' ''SEPTEMBER'' 80 10 20,
      trip ''LAGOS'' ''KANO'' ''B'' ''JULY'' 120 50 10]"

text \<open>Two trips; the sheet's ORIGIN cell of the second is blank.\<close>

definition blank_origin :: "route_record list" where
  "blank_origin =
     [trip ''LAGOS'' ''KANO'' ''A'' ''JULY'' 100 20 30,
      (trip ''LAGOS'' ''KANO'' ''A'' ''JULY'' 200 40 50)\<lparr>ORIGIN := None\<rparr>]"

text \<open>The blank entry of the ORIGIN options, selected.\<close>

definition origin_blank :: selection where
  "origin_blank = all_All\<lparr>selected_origin := None\<rparr>"


text \<open>Two trips; the sheet's PROFIT cell of the second is blank.\<close>

definition blank_profit :: "route_record list" where
  "blank_profit =
     [trip ''LAGOS'' ''KANO'' ''A'' ''JULY'' 10 0 2,
      (trip ''LAGOS'' ''KANO'' ''A'' ''JULY'' 20 0 0)\<lparr>PROFIT := None\<rparr>]"




text \<open>Two trips; the first starts at a place that is called "All".\<close>

definition origin_called_All :: "route_record list" where
  "origin_called_All =
     [trip ''All'' ''KANO'' ''A'' ''JULY'' 100 20 30,
      trip ''LAGOS'' ''ABUJA'' ''A'' ''JULY'' 200 40 50]"

definition to_KANO :: selection where
  "to_KANO = all_All\<lparr>selected_destination := Some (Text ''KANO'')\<rparr>"

text \<open>A selection of two offered values that no trip of \<open>six_trips\<close> has together.\<close>

definition KANO_to_ABUJA :: selection where
  "KANO_to_ABUJA =
     all_All\<lparr>selected_origin := Some (Text ''KANO''),
       selected_destination := Some (Text ''ABUJA'')\<rparr>"

definition sheet_of :: "route_record list \<Rightarrow> sheet_row list" where
  "sheet_of data = map (\<lambda>r. route_record.extend r \<lparr>COMMISSION = None, COST_LITRE = None\<rparr>) data"

text \<open>A reader that takes a file for the sheet it holds, or fails with a message.\<close>

definition reader :: "string + sheet_row list \<Rightarrow> string + sheet_row list" where
  "reader file = file"

section \<open>Properties\<close>

subsection \<open>Cells and columns\<close>

lemma cell_eq_Some: "cell_eq c (Some v) \<longleftrightarrow> c = Some v"
  by (auto simp: cell_eq_def split: option.splits)

lemma cell_eq_None: "\<not> cell_eq c None"
  by (simp add: cell_eq_def split: option.splits)

lemma unique_from_first:
  "unique_from seen xs =
     map (\<lambda>i. xs ! i) (filter (\<lambda>i. xs ! i \<notin> set seen \<union> set (take i xs)) [0..<length xs])"
proof (induction xs arbitrary: seen)
  case Nil
  then show ?case by simp
next
  case (Cons x xs)
  have upt: "[0..<length (x # xs)] = 0 # map Suc [0..<length xs]"
    by (simp add: upt_conv_Cons map_Suc_upt del: upt_Suc)
  show ?case
    unfolding upt
    by (auto simp add: Cons.IH filter_map comp_def simp del: upt_Suc
          intro!: arg_cong [where f = "map ((!) xs)"] filter_cong)
qed

lemma unique_first: "unique xs = first_occurrences xs"
  by (simp add: unique_def first_occurrences_def unique_from_first)

lemma set_unique_from: "set (unique_from seen xs) = set xs - set seen"
  by (induction xs arbitrary: seen) auto

lemma distinct_unique_from: "distinct (unique_from seen xs)"
  by (induction xs arbitrary: seen) (auto simp: set_unique_from)

lemma set_unique: "set (unique xs) = set xs"
  by (simp add: unique_def set_unique_from)

lemma distinct_unique: "distinct (unique xs)"
  by (simp add: unique_def distinct_unique_from)

subsection \<open>Filtering\<close>

lemma filtered_data_filter: "filtered_data data sel = filter (row_selected sel) data"
  unfolding filtered_data_def Let_def row_selected_def field_test_def
  by (auto intro: filter_cong)

lemma all_fields:
  "(\<forall>g. P g) \<longleftrightarrow> P F_ORIGIN \<and> P F_DESTINATION \<and> P F_Fleet \<and> P F_Month"
  by (metis field.exhaust)

lemma row_selected_fields: "row_selected sel r \<longleftrightarrow> (\<forall>g. field_test g sel r)"
  by (simp add: row_selected_def all_fields)

lemma blank_selected_fields: "blank_selected sel \<longleftrightarrow> (\<exists>g. selected g sel = None)"
proof -
  have "(\<exists>g. selected g sel = None) \<longleftrightarrow> \<not> (\<forall>g. selected g sel \<noteq> None)"
    by simp
  also have "\<dots> \<longleftrightarrow> blank_selected sel"
    unfolding all_fields by (auto simp: blank_selected_def)
  finally show ?thesis by simp
qed

lemma blank_selected_rejects: "blank_selected sel \<Longrightarrow> \<not> row_selected sel r"
proof -
  assume "blank_selected sel"
  then obtain g where "selected g sel = None"
    unfolding blank_selected_fields by blast
  then have "\<not> field_test g sel r"
    by (simp add: field_test_def cell_eq_None)
  then show ?thesis
    unfolding row_selected_fields by blast
qed

lemma row_selected_accepted: "\<not> blank_selected sel \<Longrightarrow> row_selected sel r \<longleftrightarrow> row_accepted sel r"
proof -
  assume "\<not> blank_selected sel"
  then have "\<exists>v. selected g sel = Some v" for g
    unfolding blank_selected_fields by auto
  then have "field_test g sel r \<longleftrightarrow> field_accepts g sel r" for g
    by (metis cell_eq_Some field_test_def field_accepts_def)
  then show ?thesis
    by (simp add: row_selected_def row_accepted_def)
qed

text \<open>
  Claim C1, amended. When no field has the blank entry selected, filtering returns
  exactly the rows that every field accepts (a field whose selection is "All" accepts every
  row, any other accepts the rows whose value is the selected value), in the order of the
  table. When some field has the blank entry selected, filtering returns no row.
\<close>

theorem filtering_keeps_accepted_rows:
  "filtered_data data sel =
     (if blank_selected sel then [] else filter (row_accepted sel) data)"
proof (cases "blank_selected sel")
  case True
  then show ?thesis
    by (simp add: filtered_data_filter blank_selected_rejects)
next
  case False
  then have "row_selected sel = row_accepted sel"
    by (simp add: fun_eq_iff row_selected_accepted)
  with False show ?thesis
    by (simp add: filtered_data_filter)
qed

theorem filtering_keeps_accepted_rows_witness:
  "filtered_data six_trips to_KANO =
     [trip ''LAGOS'' ''KANO'' ''A'' ''OCTOBER'' 100 20 30,
      trip ''LAGOS'' ''KANO'' ''A'' ''OCTOBER'' 140 20 50,
      trip ''ABUJA'' ''KANO'' ''B'' ''SEPTEMBER'' 80 10 20,
      trip ''LAGOS'' ''KANO'' ''B'' ''JULY'' 120 50 10]"
  using filtering_keeps_accepted_rows [of six_trips to_KANO]
  by (simp add: blank_selected_def to_KANO_def all_All_def row_accepted_def
      field_accepts_def six_trips_def trip_def)

text \<open>
  Claim C1 as stated fails for the blank entry: the ORIGIN options of this table offer
  it, the second row's ORIGIN is the selected value, and filtering returns no row.
\<close>

theorem blank_selection_returns_no_row:
  "origin_options blank_origin = [Some (Text ''All''), Some (Text ''LAGOS''), None] \<and>
   filter (row_accepted origin_blank) blank_origin =
     [(trip ''LAGOS'' ''KANO'' ''A'' ''JULY'' 200 40 50)\<lparr>ORIGIN := None\<rparr>] \<and>
   filtered_data blank_origin origin_blank = []"
  by (simp add: origin_options_def unique_def blank_origin_def trip_def origin_blank_def
      all_All_def row_accepted_def field_accepts_def filtered_data_def cell_eq_def)

text \<open>
  Claim C8. The filtered rows are rows of the ingested table, each at most as often as
  the table has it, and the selection of "All" in all four fields returns the table
  unchanged.
\<close>

theorem filtering_subset_and_identity:
  "set (filtered_data data sel) \<subseteq> set data \<and>
   mset (filtered_data data sel) \<subseteq># mset data \<and>
   filtered_data data all_All = data"
  by (simp add: filtered_data_filter row_selected_def field_test_def all_All_def)

subsection \<open>Option lists\<close>

text \<open>
  Claim C9. Each of the four option lists is the sentinel "All" followed by the values of
  its column at their first occurrences, in the order of the table.
\<close>

theorem options_in_first_occurrence_order:
  "origin_options data = Some (Text ''All'') # first_occurrences (map ORIGIN data) \<and>
   destination_options data = Some (Text ''All'') # first_occurrences (map DESTINATION data) \<and>
   fleet_options data = Some (Text ''All'') # first_occurrences (map Fleet data) \<and>
   month_options data = Some (Text ''All'') # first_occurrences (map Month data)"
  by (simp add: origin_options_def destination_options_def fleet_options_def
      month_options_def unique_first)

subsection \<open>The page\<close>

lemma drop_columns_sheet_of: "drop_columns (sheet_of data) = data"
  by (induction data)
    (simp_all add: drop_columns_def sheet_of_def route_record.truncate_def
      route_record.extend_def)

text \<open>
  Claim C6. When the reader fails on the uploaded file, the page shows the error message
  after the title, the introduction and the upload box, and nothing else: no option list,
  no filtered table, no summary, no aggregate table and no chart.
\<close>

theorem unparsable_upload_halts:
  "read_excel file = Inl e \<Longrightarrow>
   main read_excel (Some file) sel =
     [Title ''VPC Route Cost Dashboard'',
      Write ''This dashboard allows users to search routes by origin, destination, fleet, and month.'',
      FileUploader ''Upload an Excel file'',
      ErrorMessage (''Error reading the file: '' @ e)]"
  by (simp add: main_def)

theorem unparsable_upload_halts_witness:
  "main reader (Some (Inl ''File is not a zip file'')) to_KANO =
     [Title ''VPC Route Cost Dashboard'',
      Write ''This dashboard allows users to search routes by origin, destination, fleet, and month.'',
      FileUploader ''Upload an Excel file'',
      ErrorMessage ''Error reading the file: File is not a zip file'']"
  using unparsable_upload_halts
    [of reader "Inl ''File is not a zip file''" "''File is not a zip file''" to_KANO]
  by (simp add: reader_def)

text \<open>
  Claim C5. When a sheet was read and no row passes the filter, the page holds the four
  select boxes and the empty filtered table, and nothing else: no sidebar summary, no
  aggregate table, no chart, and no error message.
\<close>

theorem empty_result_suppresses_summaries:
  "read_excel file = Inr sheet \<Longrightarrow> filtered_data (drop_columns sheet) sel = [] \<Longrightarrow>
   main read_excel (Some file) sel =
     [Title ''VPC Route Cost Dashboard'',
      Write ''This dashboard allows users to search routes by origin, destination, fleet, and month.'',
      FileUploader ''Upload an Excel file'',
      SidebarHeader ''Filters'',
      Selectbox ''Select Origin'' (origin_options (drop_columns sheet)),
      Selectbox ''Select Destination'' (destination_options (drop_columns sheet)),
      Selectbox ''Select Fleet'' (fleet_options (drop_columns sheet)),
      Selectbox ''Select Month'' (month_options (drop_columns sheet)),
      FilteredTable False []]"
  by (simp add: main_def dashboard_def Let_def sidebar_summary_def summary_section_def)

theorem empty_result_suppresses_summaries_witness:
  "main reader (Some (Inr (sheet_of six_trips))) KANO_to_ABUJA =
     [Title ''VPC Route Cost Dashboard'',
      Write ''This dashboard allows users to search routes by origin, destination, fleet, and month.'',
      FileUploader ''Upload an Excel file'',
      SidebarHeader ''Filters'',
      Selectbox ''Select Origin''
        [Some (Text ''All''), Some (Text ''LAGOS''), Some (Text ''KANO''), Some (Text ''ABUJA'')],
      Selectbox ''Select Destination''
        [Some (Text ''All''), Some (Text ''KANO''), Some (Text ''ABUJA''), Some (Text ''LAGOS'')],
      Selectbox ''Select Fleet'' [Some (Text ''All''), Some (Text ''A''), Some (Text ''B'')],
      Selectbox ''Select Month''
        [Some (Text ''All''), Some (Text ''OCTOBER''), Some (Text ''JULY''),
         Some (Text ''SEPTEMBER'')],
      FilteredTable False []]"
proof -
  have parsed: "reader (Inr (sheet_of six_trips)) = Inr (sheet_of six_trips)"
    by (simp add: reader_def)
  have "filtered_data six_trips KANO_to_ABUJA = []"
    by (simp add: filtered_data_filter six_trips_def KANO_to_ABUJA_def all_All_def
        row_selected_def field_test_def trip_def cell_eq_def)
  then have none: "filtered_data (drop_columns (sheet_of six_trips)) KANO_to_ABUJA = []"
    by (simp add: drop_columns_sheet_of)
  show ?thesis
    using empty_result_suppresses_summaries
      [of reader "Inr (sheet_of six_trips)" "sheet_of six_trips" KANO_to_ABUJA, OF parsed none]
    by (simp add: drop_columns_sheet_of origin_options_def destination_options_def
        fleet_options_def month_options_def unique_def six_trips_def trip_def)
qed

subsection \<open>Columns with blank cells\<close>

lemma notna_filter:
  "notna (map f xs) = map (\<lambda>r. the (f r)) (filter (\<lambda>r. f r \<noteq> None) xs)"
  by (induction xs) (auto simp: notna_def)

lemma notna_present:
  "\<forall>r\<in>set fd. f r \<noteq> None \<Longrightarrow> notna (map f fd) = map (\<lambda>r. the (f r)) fd"
  by (simp add: notna_filter)

lemma series_count_filter:
  "series_count (map f xs) = length (filter (\<lambda>r. f r \<noteq> None) xs)"
  by (simp add: series_count_def notna_filter)

lemma series_sum_amount: "series_sum (map f xs) = sum_list (map (\<lambda>r. amount (f r)) xs)"
  by (induction xs) (auto simp: series_sum_def notna_def amount_def split: option.splits)

lemma series_mean_filter:
  "series_mean (map f xs) = mean_if_any (map (\<lambda>r. the (f r)) (filter (\<lambda>r. f r \<noteq> None) xs))"
  by (simp add: series_mean_def mean_if_any_def mean_of_def notna_filter)

lemma series_mean_present:
  "\<forall>r\<in>set fd. f r \<noteq> None \<Longrightarrow> fd \<noteq> [] \<Longrightarrow>
   series_mean (map f fd) = Some (mean_of (map (\<lambda>r. the (f r)) fd))"
  by (simp add: series_mean_filter mean_if_any_def)

lemma row_sum_amount: "row_sum r = Some (amount (TRIP_RATE r) + amount (DISPATCH r))"
  by (simp add: row_sum_def series_sum_def notna_def amount_def split: option.splits)

lemma mean_row_sum:
  "fd \<noteq> [] \<Longrightarrow>
   series_mean (map row_sum fd) =
     Some (mean_of (map (\<lambda>r. amount (TRIP_RATE r) + amount (DISPATCH r)) fd))"
  by (simp add: series_mean_filter row_sum_amount mean_if_any_def comp_def)

lemma TOTAL_COST_defined: "TOTAL_COST r \<noteq> None \<longleftrightarrow> no_blank_numbers r"
  by (auto simp: no_blank_numbers_def TOTAL_COST_def num_add_def num_sub_def
      split: option.splits)

lemma TOTAL_COST_no_blank: "no_blank_numbers r \<Longrightarrow> TOTAL_COST r = Some (derived_cost r)"
  by (auto simp: no_blank_numbers_def TOTAL_COST_def num_add_def num_sub_def derived_cost_def
      trip_rate_def dispatch_def profit_def)

lemma mean_TOTAL_COST:
  "series_mean (map TOTAL_COST xs) = mean_if_any (map derived_cost (filter no_blank_numbers xs))"
proof -
  have costs: "map (\<lambda>r. the (TOTAL_COST r)) (filter no_blank_numbers xs) =
        map derived_cost (filter no_blank_numbers xs)"
    by (rule map_cong) (simp_all add: TOTAL_COST_no_blank)
  have rows: "filter (\<lambda>r. TOTAL_COST r \<noteq> None) xs = filter no_blank_numbers xs"
    using TOTAL_COST_defined by (intro filter_cong) auto
  show ?thesis
    unfolding series_mean_filter rows costs ..
qed

lemma amount_no_blank:
  "no_blank_numbers r \<Longrightarrow> amount (TRIP_RATE r) + amount (DISPATCH r) = trip_rate r + dispatch r"
  by (auto simp: no_blank_numbers_def amount_def trip_rate_def dispatch_def)

lemma mean_of_diff:
  "mean_of (map (\<lambda>r. f r - g r) xs) = mean_of (map f xs) - mean_of (map g xs)"
  by (simp add: mean_of_def sum_list_subtractf diff_divide_distrib)

subsection \<open>Summary scalars and the two average costs\<close>

lemma average_profit_no_blank:
  assumes "\<forall>r\<in>set fd. PROFIT r \<noteq> None" "fd \<noteq> []"
  shows "average_profit fd = Some (mean_of (map profit fd))"
  using assms by (simp add: average_profit_def series_mean_present profit_def [abs_def])

lemma average_cost_no_blank:
  assumes "\<forall>r\<in>set fd. no_blank_numbers r" "fd \<noteq> []"
  shows "average_cost fd =
    Some (mean_of (map (\<lambda>r. trip_rate r + dispatch r) fd) - mean_of (map profit fd))"
proof -
  have "\<forall>r\<in>set fd. PROFIT r \<noteq> None"
    using assms(1) by (simp add: no_blank_numbers_def)
  then have prof: "average_profit fd = Some (mean_of (map profit fd))"
    using assms(2) by (rule average_profit_no_blank)
  have sums: "map (\<lambda>r. amount (TRIP_RATE r) + amount (DISPATCH r)) fd =
        map (\<lambda>r. trip_rate r + dispatch r) fd"
    using assms(1) by (simp add: amount_no_blank)
  have "series_mean (map row_sum fd) =
        Some (mean_of (map (\<lambda>r. trip_rate r + dispatch r) fd))"
    using mean_row_sum [OF assms(2)] unfolding sums .
  with prof show ?thesis
    by (simp add: average_cost_def num_sub_def)
qed

lemma mean_TOTAL_COST_no_blank:
  assumes "\<forall>r\<in>set fd. no_blank_numbers r" "fd \<noteq> []"
  shows "series_mean (map TOTAL_COST fd) = Some (mean_of (map derived_cost fd))"
proof -
  have "filter no_blank_numbers fd = fd"
    using assms(1) by (simp add: filter_id_conv)
  then show ?thesis
    using assms(2) by (simp add: mean_TOTAL_COST mean_if_any_def)
qed

text \<open>
  Claim C7, amended. On a non-empty row set with no blank TRIP RATE, DISPATCH or PROFIT
  cell, the sidebar's average cost (the mean of TRIP RATE + DISPATCH minus the mean of
  PROFIT) and the aggregate's average cost of the same rows as one group (the mean of
  TRIP RATE + DISPATCH - PROFIT) are, in exact arithmetic, the same number.
\<close>

theorem average_cost_formulas_agree:
  assumes "\<forall>r\<in>set fd. no_blank_numbers r" and "fd \<noteq> []"
  shows "average_cost fd = g_average_cost (agg k fd) \<and>
         average_cost fd =
           Some (mean_of (map (\<lambda>r. trip_rate r + dispatch r) fd) - mean_of (map profit fd)) \<and>
         g_average_cost (agg k fd) = Some (mean_of (map derived_cost fd))"
proof -
  have "mean_of (map derived_cost fd) =
      mean_of (map (\<lambda>r. trip_rate r + dispatch r) fd) - mean_of (map profit fd)"
    unfolding derived_cost_def by (rule mean_of_diff)
  then show ?thesis
    using assms by (simp add: average_cost_no_blank agg_def mean_TOTAL_COST_no_blank)
qed

theorem average_cost_formulas_agree_witness:
  "average_cost six_trips = Some 150 \<and>
   g_average_cost (agg (Text ''JULY'', Text ''A'') six_trips) = Some 150"
proof -
  have nb: "\<forall>r\<in>set six_trips. no_blank_numbers r"
    by (simp add: six_trips_def trip_def no_blank_numbers_def)
  have ne: "six_trips \<noteq> []"
    by (simp add: six_trips_def)
  have "mean_of (map (\<lambda>r. trip_rate r + dispatch r) six_trips) - mean_of (map profit six_trips) = 150"
    by (simp add: six_trips_def trip_def mean_of_def trip_rate_def dispatch_def profit_def)
  then show ?thesis
    using average_cost_formulas_agree [OF nb ne, of "(Text ''JULY'', Text ''A'')"] by auto
qed

text \<open>
  Claim C7 as stated fails when a PROFIT cell is blank: the sidebar then averages
  TRIP RATE + DISPATCH over all rows and PROFIT over the rows that have one, while the
  aggregate averages the derived cost over the rows that have one.
\<close>

theorem average_cost_formulas_differ_on_blank_profit:
  "length blank_profit = 2 \<and> average_cost blank_profit = Some 13 \<and>
   g_average_cost (agg (Text ''JULY'', Text ''A'') blank_profit) = Some 8"
  by (simp add: blank_profit_def trip_def average_cost_def average_profit_def series_mean_def
      notna_def row_sum_def series_sum_def num_sub_def num_add_def
      TOTAL_COST_def agg_def)

text \<open>
  Claim C3, amended. On a non-empty filtered table, in exact arithmetic: the trip count is
  the number of rows whose ORIGIN cell is not blank, which is the number of rows when no
  ORIGIN cell is blank; the total revenue is the sum of TRIP RATE over the rows, a blank
  cell adding nothing; the average profit is the mean of the PROFIT cells that are not
  blank (blank when all are), which is the sum of PROFIT divided by the number of rows
  when no PROFIT cell is blank; and the average cost is the mean over the rows of
  TRIP RATE + DISPATCH (a blank cell adding nothing) minus the average profit, and is
  blank when the average profit is.
\<close>

theorem summary_scalars_of_filtered_table:
  assumes "fd \<noteq> []"
  shows "total_trips fd = length (filter (\<lambda>r. ORIGIN r \<noteq> None) fd) \<and>
         ((\<forall>r\<in>set fd. ORIGIN r \<noteq> None) \<longrightarrow> total_trips fd = length fd) \<and>
         total_revenue fd = sum_list (map (\<lambda>r. amount (TRIP_RATE r)) fd) \<and>
         average_profit fd = mean_if_any (map profit (filter (\<lambda>r. PROFIT r \<noteq> None) fd)) \<and>
         ((\<forall>r\<in>set fd. PROFIT r \<noteq> None) \<longrightarrow>
            average_profit fd = Some (sum_list (map profit fd) / of_nat (length fd))) \<and>
         (\<forall>p. average_profit fd = Some p \<longrightarrow>
            average_cost fd =
              Some (mean_of (map (\<lambda>r. amount (TRIP_RATE r) + amount (DISPATCH r)) fd) - p)) \<and>
         (average_profit fd = None \<longrightarrow> average_cost fd = None)"
proof -
  have trips: "total_trips fd = length (filter (\<lambda>r. ORIGIN r \<noteq> None) fd)"
    by (simp add: total_trips_def series_count_filter)
  have all_trips: "total_trips fd = length fd" if "\<forall>r\<in>set fd. ORIGIN r \<noteq> None"
    using that by (simp add: trips filter_id_conv)
  have revenue: "total_revenue fd = sum_list (map (\<lambda>r. amount (TRIP_RATE r)) fd)"
    by (simp add: total_revenue_def series_sum_amount)
  have prof: "average_profit fd = mean_if_any (map profit (filter (\<lambda>r. PROFIT r \<noteq> None) fd))"
    by (simp add: average_profit_def series_mean_filter profit_def [abs_def])
  have all_prof: "average_profit fd = Some (sum_list (map profit fd) / of_nat (length fd))"
    if "\<forall>r\<in>set fd. PROFIT r \<noteq> None"
    using average_profit_no_blank [OF that assms] by (simp add: mean_of_def)
  have cost: "average_cost fd =
      Some (mean_of (map (\<lambda>r. amount (TRIP_RATE r) + amount (DISPATCH r)) fd) - p)"
    if "average_profit fd = Some p" for p
    using that by (simp add: average_cost_def mean_row_sum [OF assms] num_sub_def)
  have no_cost: "average_cost fd = None" if "average_profit fd = None"
    using that by (simp add: average_cost_def mean_row_sum [OF assms] num_sub_def)
  show ?thesis
    using trips all_trips revenue prof all_prof cost no_cost by blast
qed

theorem summary_scalars_of_filtered_table_witness:
  "total_trips six_trips = 6 \<and> total_revenue six_trips = 940 \<and>
   average_profit six_trips = Some 40 \<and> average_cost six_trips = Some 150"
proof -
  have ne: "six_trips \<noteq> []"
    by (simp add: six_trips_def)
  have orig: "\<forall>r\<in>set six_trips. ORIGIN r \<noteq> None" and prof: "\<forall>r\<in>set six_trips. PROFIT r \<noteq> None"
    by (simp_all add: six_trips_def trip_def)
  have "length six_trips = 6" "sum_list (map (\<lambda>r. amount (TRIP_RATE r)) six_trips) = 940"
    "sum_list (map profit six_trips) / of_nat (length six_trips) = 40"
    "mean_of (map (\<lambda>r. amount (TRIP_RATE r) + amount (DISPATCH r)) six_trips) = 190"
    by (simp_all add: six_trips_def trip_def mean_of_def amount_def profit_def)
  then show ?thesis
    using summary_scalars_of_filtered_table [OF ne] orig prof by auto
qed

text \<open>
  Claim C3 as stated fails when an ORIGIN cell is blank: the trip count is the number of
  ORIGIN cells that are present.
\<close>

theorem trip_count_skips_blank_origin:
  "length (filtered_data blank_origin all_All) = 2 \<and>
   total_trips (filtered_data blank_origin all_All) = 1"
  by (simp add: filtered_data_def all_All_def blank_origin_def trip_def total_trips_def
      series_count_def notna_def)

subsection \<open>Grouped aggregation\<close>


lemma group_key_defined: "group_key r \<noteq> None \<longleftrightarrow> Month r \<noteq> None \<and> Fleet r \<noteq> None"
  by (auto simp: group_key_def split: option.splits)













subsection \<open>Chronological order\<close>










subsection \<open>The aggregate table\<close>




text \<open>The six trips, grouped: four rows, ordered by the text of the month.\<close>

lemma groupby_agg_six_trips:
  "groupby_agg six_trips =
     [\<lparr>g_Month = Some (Text ''JULY''), g_Fleet = Text ''A'', number_of_trips = 1,
       g_total_revenue = 300, g_average_profit = Some 80, g_average_cost = Some 280\<rparr>,
      \<lparr>g_Month = Some (Text ''JULY''), g_Fleet = Text ''B'', number_of_trips = 2,
       g_total_revenue = 320, g_average_profit = Some 30, g_average_cost = Some 175\<rparr>,
      \<lparr>g_Month = Some (Text ''OCTOBER''), g_Fleet = Text ''A'', number_of_trips = 2,
       g_total_revenue = 240, g_average_profit = Some 40, g_average_cost = Some 100\<rparr>,
      \<lparr>g_Month = Some (Text ''SEPTEMBER''), g_Fleet = Text ''B'', number_of_trips = 1,
       g_total_revenue = 80, g_average_profit = Some 20, g_average_cost = Some 70\<rparr>]"
  by code_simp

text \<open>The same four rows after the chronological sort.\<close>

lemma summary_six_trips:
  "summary_by_month_and_fleet six_trips =
     [\<lparr>g_Month = Some (Text ''JULY''), g_Fleet = Text ''A'', number_of_trips = 1,
       g_total_revenue = 300, g_average_profit = Some 80, g_average_cost = Some 280\<rparr>,
      \<lparr>g_Month = Some (Text ''JULY''), g_Fleet = Text ''B'', number_of_trips = 2,
       g_total_revenue = 320, g_average_profit = Some 30, g_average_cost = Some 175\<rparr>,
      \<lparr>g_Month = Some (Text ''SEPTEMBER''), g_Fleet = Text ''B'', number_of_trips = 1,
       g_total_revenue = 80, g_average_profit = Some 20, g_average_cost = Some 70\<rparr>,
      \<lparr>g_Month = Some (Text ''OCTOBER''), g_Fleet = Text ''A'', number_of_trips = 2,
       g_total_revenue = 240, g_average_profit = Some 40, g_average_cost = Some 100\<rparr>]"
  by code_simp

subsection \<open>The Month column\<close>








text \<open>One fleet and the months OCTOBER, JULY, SEPTEMBER, NOVEMBER: the three known months
  come in the order of the calendar, and the month that is not a category comes last and is
  shown as missing.\<close>

lemma month_column_example:
  "map g_Month (summary_by_month_and_fleet
     [trip ''LAGOS'' ''KANO'' ''A'' ''OCTOBER'' 100 20 30,
      trip ''LAGOS'' ''KANO'' ''A'' ''NOVEMBER'' 100 20 30,
      trip ''LAGOS'' ''KANO'' ''A'' ''JULY'' 100 20 30,
      trip ''LAGOS'' ''KANO'' ''A'' ''SEPTEMBER'' 100 20 30]) =
   [Some (Text ''JULY''), Some (Text ''SEPTEMBER''), Some (Text ''OCTOBER''), None]"
  by code_simp

subsection \<open>The sentinel\<close>

lemma count_list_distinct: "distinct xs \<Longrightarrow> x \<in> set xs \<Longrightarrow> count_list xs x = 1"
  by (induction xs) (auto simp: count_list_0_iff)

lemma options_unique: "options fld data = Some (Text ''All'') # unique (map (column fld) data)"
  by (cases fld)
    (simp_all add: origin_options_def destination_options_def fleet_options_def
      month_options_def comp_def cong: map_cong)

text \<open>
  Claim C10, amended. The sentinel is not told apart from a value "All" of the data. With
  the selection "All" for a field, the result is the rows that pass the tests of the other
  three fields, whatever their value in that field. A row whose value in the field is
  "All" is in the result only under the selection "All" for that field. And when the value
  "All" occurs in the field's column, the field's option list holds "All" twice.
\<close>

theorem sentinel_All_is_not_escaped:
  "(selected fld sel = Some (Text ''All'') \<longrightarrow>
      filtered_data data sel = filter (\<lambda>r. \<forall>g. g \<noteq> fld \<longrightarrow> field_test g sel r) data) \<and>
   (column fld r = Some (Text ''All'') \<and> r \<in> set (filtered_data data sel) \<longrightarrow>
      selected fld sel = Some (Text ''All'')) \<and>
   (Some (Text ''All'') \<in> column fld ` set data \<longrightarrow>
      count_list (options fld data) (Some (Text ''All'')) = 2)"
proof (intro conjI impI)
  assume "selected fld sel = Some (Text ''All'')"
  then have "row_selected sel r \<longleftrightarrow> (\<forall>g. g \<noteq> fld \<longrightarrow> field_test g sel r)" for r
    unfolding row_selected_fields by (metis field_test_def)
  then have "row_selected sel = (\<lambda>r. \<forall>g. g \<noteq> fld \<longrightarrow> field_test g sel r)"
    by (simp add: fun_eq_iff)
  then show "filtered_data data sel = filter (\<lambda>r. \<forall>g. g \<noteq> fld \<longrightarrow> field_test g sel r) data"
    by (simp add: filtered_data_filter)
next
  assume "column fld r = Some (Text ''All'') \<and> r \<in> set (filtered_data data sel)"
  then have "field_test fld sel r" and "column fld r = Some (Text ''All'')"
    by (simp_all add: filtered_data_filter row_selected_fields)
  then show "selected fld sel = Some (Text ''All'')"
    by (cases "selected fld sel") (auto simp: field_test_def cell_eq_def)
next
  assume "Some (Text ''All'') \<in> column fld ` set data"
  then have "Some (Text ''All'') \<in> set (unique (map (column fld) data))"
    by (simp add: set_unique)
  then have "count_list (unique (map (column fld) data)) (Some (Text ''All'')) = 1"
    using distinct_unique by (rule count_list_distinct [rotated])
  then show "count_list (options fld data) (Some (Text ''All'')) = 2"
    by (simp add: options_unique)
qed

theorem sentinel_All_is_not_escaped_witness:
  "filtered_data origin_called_All to_KANO = [trip ''All'' ''KANO'' ''A'' ''JULY'' 100 20 30] \<and>
   selected_origin to_KANO = Some (Text ''All'') \<and>
   count_list (origin_options origin_called_All) (Some (Text ''All'')) = 2"
proof -
  let ?r = "trip ''All'' ''KANO'' ''A'' ''JULY'' 100 20 30"
  have sel: "selected F_ORIGIN to_KANO = Some (Text ''All'')"
    by (simp add: to_KANO_def all_All_def)
  have col: "column F_ORIGIN ?r = Some (Text ''All'')"
    by (simp add: trip_def)
  have occurs: "Some (Text ''All'') \<in> column F_ORIGIN ` set origin_called_All"
    by (simp add: origin_called_All_def trip_def)
  have "filter (\<lambda>r. \<forall>g. g \<noteq> F_ORIGIN \<longrightarrow> field_test g to_KANO r) origin_called_All = [?r]"
    by (simp add: all_fields field_test_def to_KANO_def all_All_def origin_called_All_def
        trip_def cell_eq_def)
  then show ?thesis
    using sentinel_All_is_not_escaped [of F_ORIGIN to_KANO origin_called_All ?r] sel col occurs
    by simp
qed

text \<open>
  Claim C10 as stated fails where it says that no selection restricts the result to the
  rows whose value is "All": a selection in another field can. Here the only trip from
  "All" is the only trip to KANO.
\<close>

theorem rows_called_All_can_be_singled_out:
  "map ORIGIN origin_called_All = [Some (Text ''All''), Some (Text ''LAGOS'')] \<and>
   filtered_data origin_called_All to_KANO = [trip ''All'' ''KANO'' ''A'' ''JULY'' 100 20 30]"
  by (simp add: filtered_data_def to_KANO_def all_All_def origin_called_All_def trip_def
      cell_eq_def)

end
